theory Spec2Isabelle
  imports Main "HOL-Library.Word"
begin

unbundle bit_operations_syntax

section \<open>Values exchanged with the libraries\<close>

text \<open>
  The script \<^verbatim>\<open>ollama.py\<close> talks to three libraries: \<^verbatim>\<open>requests\<close> (HTTP),
  \<^verbatim>\<open>pdf2image\<close>/\<^verbatim>\<open>PIL\<close> (decoding a PDF, saving a page as JPEG) and
  \<^verbatim>\<open>streamlit\<close> (widgets and banners). What a library call returns is an input of
  the model; what the script does with it is modelled here.

  An exception is a value: its class, as far as the \<^verbatim>\<open>except\<close> clauses of the script
  tell classes apart, and the text \<^verbatim>\<open>str(e)\<close>. \<^verbatim>\<open>Timeout\<close> is a subclass of
  \<^verbatim>\<open>RequestException\<close>; \<open>RequestExc\<close> stands for the request exceptions that are
  not timeouts, \<open>OtherExc\<close> for every other \<^verbatim>\<open>Exception\<close>.
\<close>

datatype exn_class = TimeoutExc | RequestExc | OtherExc

datatype exn = Exn exn_class string

fun exn_str :: "exn \<Rightarrow> string" where
  "exn_str (Exn c m) = m"

fun exn_cls :: "exn \<Rightarrow> exn_class" where
  "exn_cls (Exn c m) = c"

text \<open>
  A decoded JSON value, as \<^verbatim>\<open>response.json()\<close> returns it. An object holds the items
  of the Python dict in order, so its keys are distinct. Numbers are the integers
  (fractional numbers play no part in the script). A string is the list of the bytes of
  its UTF-8 encoding, so a character outside ASCII takes several of them; the only such
  text in the script itself is the two signs of the status banner.
\<close>

datatype json =
    JNull
  | JBool bool
  | JNum int
  | JStr string
  | JArr "json list"
  | JObj "(string \<times> json) list"

text \<open>
  A \<^verbatim>\<open>requests.Response\<close>: the status code, the body text, and what calling
  \<^verbatim>\<open>.json()\<close> on it gives (the decoded body, or the exception it raises on a body
  that is not JSON).
\<close>

record response =
  status_code :: int
  body_text :: string
  json_body :: "exn + json"

type_synonym byte = "8 word"

subsection \<open>Python operations on decoded JSON\<close>

fun type_name :: "json \<Rightarrow> string" where
  "type_name JNull = ''NoneType''"
| "type_name (JBool b) = ''bool''"
| "type_name (JNum n) = ''int''"
| "type_name (JStr s) = ''str''"
| "type_name (JArr xs) = ''list''"
| "type_name (JObj kvs) = ''dict''"

text \<open>\<^verbatim>\<open>v.get(key, default)\<close>: only a dict has the method.\<close>

fun py_get :: "json \<Rightarrow> string \<Rightarrow> json \<Rightarrow> exn + json" where
  "py_get (JObj kvs) key dflt = Inr (case map_of kvs key of Some v \<Rightarrow> v | None \<Rightarrow> dflt)"
| "py_get v key dflt =
     Inl (Exn OtherExc ([CHR 0x27] @ type_name v @ [CHR 0x27] @
        '' object has no attribute 'get'' @ [CHR 0x27]))"

text \<open>Truth value of \<^verbatim>\<open>if v:\<close>.\<close>

fun py_truthy :: "json \<Rightarrow> bool" where
  "py_truthy JNull = False"
| "py_truthy (JBool b) = b"
| "py_truthy (JNum n) = (n \<noteq> 0)"
| "py_truthy (JStr s) = (s \<noteq> [])"
| "py_truthy (JArr xs) = (xs \<noteq> [])"
| "py_truthy (JObj kvs) = (kvs \<noteq> [])"

text \<open>
  Python counts and iterates the characters (code points) of a string, not its bytes. In
  UTF-8 every character is one leading byte followed by its continuation bytes, the bytes
  from 128 to 191.
\<close>

definition utf8_continuation :: "char \<Rightarrow> bool" where
  "utf8_continuation c = (128 \<le> (of_char c :: nat) \<and> (of_char c :: nat) < 192)"

fun utf8_chars :: "string \<Rightarrow> string list" where
  "utf8_chars [] = []"
| "utf8_chars (c # cs) =
     (case utf8_chars cs of
        [] \<Rightarrow> [[c]]
      | g # gs \<Rightarrow>
          (case g of
             [] \<Rightarrow> [c] # gs
           | b # bs \<Rightarrow> if utf8_continuation b then (c # g) # gs else [c] # g # gs))"

text \<open>\<^verbatim>\<open>len(v)\<close>: defined on strings, lists and dicts, a \<^verbatim>\<open>TypeError\<close> elsewhere.\<close>

fun py_len :: "json \<Rightarrow> exn + nat" where
  "py_len (JStr s) = Inr (length (utf8_chars s))"
| "py_len (JArr xs) = Inr (length xs)"
| "py_len (JObj kvs) = Inr (length kvs)"
| "py_len v =
     Inl (Exn OtherExc (''object of type '' @ [CHR 0x27] @ type_name v @ [CHR 0x27] @
        '' has no len()''))"

text \<open>
  \<^verbatim>\<open>for model in v\<close>: a list gives its elements, a dict its keys, a string its
  characters; nothing else can be iterated. The exceptions of the model list are caught by
  a bare \<^verbatim>\<open>except\<close> that ignores them, so these operations return an option.
\<close>

fun py_iter :: "json \<Rightarrow> json list option" where
  "py_iter (JArr xs) = Some xs"
| "py_iter (JObj kvs) = Some (map (\<lambda>kv. JStr (fst kv)) kvs)"
| "py_iter (JStr s) = Some (map JStr (utf8_chars s))"
| "py_iter v = None"

text \<open>\<^verbatim>\<open>model["name"]\<close>: a dict with that key; anything else raises.\<close>

fun py_item_name :: "json \<Rightarrow> json option" where
  "py_item_name (JObj kvs) = map_of kvs ''name''"
| "py_item_name v = None"

text \<open>Lists and dicts cannot be dict keys.\<close>

fun hashable :: "json \<Rightarrow> bool" where
  "hashable (JArr xs) = False"
| "hashable (JObj kvs) = False"
| "hashable v = True"

text \<open>
  Equality of dict keys: Python compares \<^verbatim>\<open>True\<close> and \<^verbatim>\<open>1\<close> (and \<^verbatim>\<open>False\<close>
  and \<^verbatim>\<open>0\<close>) equal.
\<close>

fun py_num :: "json \<Rightarrow> int option" where
  "py_num (JBool b) = Some (if b then 1 else 0)"
| "py_num (JNum n) = Some n"
| "py_num v = None"

definition py_eq :: "json \<Rightarrow> json \<Rightarrow> bool" where
  "py_eq a b =
     (case py_num a of
        Some x \<Rightarrow> (case py_num b of Some y \<Rightarrow> x = y | None \<Rightarrow> False)
      | None \<Rightarrow> (case py_num b of Some y \<Rightarrow> False | None \<Rightarrow> a = b))"

text \<open>
  A Python dict with JSON keys, as the list of its items in insertion order.
  \<^verbatim>\<open>d[k] = v\<close> keeps the first key equal to \<open>k\<close> and replaces its value.
\<close>

type_synonym pydict = "(json \<times> json) list"

fun dict_set :: "pydict \<Rightarrow> json \<Rightarrow> json \<Rightarrow> pydict" where
  "dict_set [] k v = [(k, v)]"
| "dict_set ((k', v') # d) k v =
     (if py_eq k' k then (k', v) # d else (k', v') # dict_set d k v)"

fun dict_get :: "pydict \<Rightarrow> json \<Rightarrow> json option" where
  "dict_get [] k = None"
| "dict_get ((k', v') # d) k = (if py_eq k' k then Some v' else dict_get d k)"

definition dict_keys :: "pydict \<Rightarrow> json list" where
  "dict_keys d = map fst d"

subsection \<open>Formatting\<close>

text \<open>\<^verbatim>\<open>str(n)\<close> of an integer, as the f-strings of the script print it.\<close>

fun str_nat :: "nat \<Rightarrow> string" where
  "str_nat n =
     (if n < 10 then [''0123456789'' ! n]
      else str_nat (n div 10) @ [''0123456789'' ! (n mod 10)])"

definition str_int :: "int \<Rightarrow> string" where
  "str_int i = (if i < 0 then CHR ''-'' # str_nat (nat (- i)) else str_nat (nat i))"

text \<open>
  \<^verbatim>\<open>template.format(job_description=jd)\<close>. The scanner reads the template from left
  to right; its first argument is the name of the replacement field being read, if any.
  \<^verbatim>\<open>{{\<close> and \<^verbatim>\<open>}}\<close> are escapes, \<^verbatim>\<open>{job_description}\<close> is replaced by the
  argument (which is never scanned itself); a field of another name, a lone \<^verbatim>\<open>}\<close> and
  an unclosed \<^verbatim>\<open>{\<close> raise (\<open>None\<close>). Conversions and format specifications, which
  the two templates of the script do not use, are not modelled and give \<open>None\<close> as well.
\<close>

fun format_scan :: "string option \<Rightarrow> string \<Rightarrow> string \<Rightarrow> string option" where
  "format_scan None [] jd = Some []"
| "format_scan (Some field) [] jd = None"
| "format_scan (Some field) (c # cs) jd =
     (if c = CHR ''}'' then
        (if field = ''job_description''
         then map_option (\<lambda>r. jd @ r) (format_scan None cs jd)
         else None)
      else format_scan (Some (field @ [c])) cs jd)"
| "format_scan None [c] jd =
     (if c = CHR ''{'' \<or> c = CHR ''}'' then None else Some [c])"
| "format_scan None (c # d # cs) jd =
     (if c = CHR ''{'' then
        (if d = CHR ''{'' then map_option (\<lambda>r. CHR ''{'' # r) (format_scan None cs jd)
         else format_scan (Some []) (d # cs) jd)
      else if c = CHR ''}'' then
        (if d = CHR ''}'' then map_option (\<lambda>r. CHR ''}'' # r) (format_scan None cs jd)
         else None)
      else map_option (\<lambda>r. c # r) (format_scan None (d # cs) jd))"

definition py_format :: "string \<Rightarrow> string \<Rightarrow> string option" where
  "py_format template jd = format_scan None template jd"

text \<open>\<^verbatim>\<open>base64.b64encode(bs).decode('utf-8')\<close>, the standard alphabet with padding.\<close>

definition b64_alphabet :: string where
  "b64_alphabet = ''ABCDEFGHIJKLMNOPQRSTUVWXYZabcdefghijklmnopqrstuvwxyz0123456789+/''"

definition b64_char :: "byte \<Rightarrow> char" where
  "b64_char w = b64_alphabet ! unat w"

fun b64encode :: "byte list \<Rightarrow> string" where
  "b64encode [] = []"
| "b64encode [a] =
     [b64_char (drop_bit 2 a), b64_char (push_bit 4 (a AND 3)), CHR ''='', CHR ''='']"
| "b64encode [a, b] =
     [b64_char (drop_bit 2 a), b64_char (push_bit 4 (a AND 3) OR drop_bit 4 b),
      b64_char (push_bit 2 (b AND 15)), CHR ''='']"
| "b64encode (a # b # c # r) =
     [b64_char (drop_bit 2 a), b64_char (push_bit 4 (a AND 3) OR drop_bit 4 b),
      b64_char (push_bit 2 (b AND 15) OR drop_bit 6 c), b64_char (c AND 63)] @ b64encode r"

section \<open>The world of one run of the script\<close>

text \<open>
  The environment gives the outcome of every library call that leaves the script:
  the reply to the \<open>n\<close>-th \<^verbatim>\<open>requests.get\<close> of a run (numbered from 0; two requests
  to the same address need not get the same reply), the reply to
  \<^verbatim>\<open>requests.post(url, json=data, timeout=t)\<close>, the pages
  \<^verbatim>\<open>pdf2image.convert_from_bytes\<close> decodes, the bytes \<^verbatim>\<open>Image.save\<close> writes for
  a page in JPEG format, and the two elapsed times as \<^verbatim>\<open>:.2f\<close> prints them.
\<close>

record 'img env =
  get_reply :: "nat \<Rightarrow> string \<Rightarrow> nat \<Rightarrow> exn + response"
  post_reply :: "string \<Rightarrow> json \<Rightarrow> nat \<Rightarrow> exn + response"
  convert_from_bytes :: "byte list \<Rightarrow> exn + 'img list"
  save_jpeg :: "'img \<Rightarrow> exn + byte list"
  pdf_time_2f :: string
  ollama_time_2f :: string

text \<open>
  What a run does is recorded, in order: the calls that leave the script and the elements
  it shows. \<open>Ph\<dots>\<close> are the operations on \<^verbatim>\<open>process_placeholder\<close>, a slot that shows
  its latest content. \<open>Uncaught\<close> is an exception no handler catches: the run stops there.
\<close>

datatype 'img event =
    HttpGet string nat
  | HttpPost string json nat
  | PdfDecode "byte list"
  | JpegSave 'img
  | StError string
  | StWarning string
  | StInfo string
  | StSuccess string
  | StSubheader string
  | StMarkdown json
  | StWrite string
  | PhInfo string
  | PhError string
  | PhEmpty
  | Uncaught string

fun is_get :: "'img event \<Rightarrow> bool" where
  "is_get (HttpGet url t) = True"
| "is_get ev = False"

fun is_post :: "'img event \<Rightarrow> bool" where
  "is_post (HttpPost url d t) = True"
| "is_post ev = False"

fun is_pdf_decode :: "'img event \<Rightarrow> bool" where
  "is_pdf_decode (PdfDecode bs) = True"
| "is_pdf_decode ev = False"

fun is_jpeg_save :: "'img event \<Rightarrow> bool" where
  "is_jpeg_save (JpegSave p) = True"
| "is_jpeg_save ev = False"

fun is_warning :: "'img event \<Rightarrow> bool" where
  "is_warning (StWarning m) = True"
| "is_warning ev = False"

definition requests_get ::
  "'img env \<Rightarrow> string \<Rightarrow> nat \<Rightarrow> 'img event list \<Rightarrow> (exn + response) \<times> 'img event list" where
  "requests_get env url t log =
     (get_reply env (length (filter is_get log)) url t, log @ [HttpGet url t])"

definition requests_post ::
  "'img env \<Rightarrow> string \<Rightarrow> json \<Rightarrow> nat \<Rightarrow> 'img event list \<Rightarrow> (exn + response) \<times> 'img event list" where
  "requests_post env url d t log = (post_reply env url d t, log @ [HttpPost url d t])"

section \<open>The script\<close>

definition OLLAMA_API_URL :: string where
  "OLLAMA_API_URL = ''http://127.0.0.1:11434/api/generate''"

definition tags_url :: string where
  "tags_url = ''http://127.0.0.1:11434/api/tags''"

subsection \<open>\<^verbatim>\<open>check_ollama_status\<close>\<close>

text \<open>The body of the \<^verbatim>\<open>try\<close>, from the reply to the request on.\<close>

definition status_of_reply :: "exn + response \<Rightarrow> exn + (bool \<times> string)" where
  "status_of_reply reply =
     (case reply of
        Inl e \<Rightarrow> Inl e
      | Inr response \<Rightarrow>
          if status_code response = 200 then
            (case json_body response of
               Inl e \<Rightarrow> Inl e
             | Inr j \<Rightarrow>
                 (case py_get j ''models'' (JArr []) of
                    Inl e \<Rightarrow> Inl e
                  | Inr models \<Rightarrow>
                      if py_truthy models then
                        (case py_len models of
                           Inl e \<Rightarrow> Inl e
                         | Inr n \<Rightarrow>
                             Inr (True, ''Ollama is running with '' @ str_nat n @
                                        '' models available.''))
                      else Inr (True, ''Ollama is running but no models are available.'')))
          else Inr (False, ''Ollama responded with status code: '' @
                           str_int (status_code response)))"

text \<open>The three \<^verbatim>\<open>except\<close> clauses, in the order of the source.\<close>

fun status_except :: "exn \<Rightarrow> bool \<times> string" where
  "status_except (Exn TimeoutExc m) =
     (False, ''Connection to Ollama timed out. Is Ollama running?'')"
| "status_except (Exn RequestExc m) = (False, ''Error connecting to Ollama: '' @ m)"
| "status_except (Exn OtherExc m) = (False, ''Unexpected error: '' @ m)"

definition check_ollama_status ::
  "'img env \<Rightarrow> 'img event list \<Rightarrow> (bool \<times> string) \<times> 'img event list" where
  "check_ollama_status env log =
     (case requests_get env tags_url 5 log of
        (reply, log') \<Rightarrow>
          (case status_of_reply reply of
             Inl e \<Rightarrow> (status_except e, log')
           | Inr r \<Rightarrow> (r, log')))"

subsection \<open>\<^verbatim>\<open>get_ollama_response\<close>\<close>

text \<open>
  The result pair \<^verbatim>\<open>(False, message)\<close> is \<open>Inl message\<close>, the pair
  \<^verbatim>\<open>(True, value)\<close> is \<open>Inr value\<close>. The only call of the function passes the
  model, so the default \<^verbatim>\<open>model="gemma3"\<close> of the parameter is never used. The
  function has no timeout parameter: the timeout of the request is the literal 60.
\<close>

definition request_data :: "string \<Rightarrow> string \<Rightarrow> json \<Rightarrow> json" where
  "request_data prompt image_base64 model =
     JObj [(''model'', model), (''prompt'', JStr prompt), (''stream'', JBool False),
           (''images'', JArr [JStr image_base64])]"

definition response_of_reply :: "exn + response \<Rightarrow> exn + (string + json)" where
  "response_of_reply reply =
     (case reply of
        Inl e \<Rightarrow> Inl e
      | Inr response \<Rightarrow>
          if status_code response = 200 then
            (case json_body response of
               Inl e \<Rightarrow> Inl e
             | Inr j \<Rightarrow>
                 (case py_get j ''response'' (JStr ''No response generated'') of
                    Inl e \<Rightarrow> Inl e
                  | Inr v \<Rightarrow> Inr (Inr v)))
          else Inr (Inl (''Error: '' @ str_int (status_code response) @ '' - '' @
                         body_text response)))"

fun response_except :: "exn \<Rightarrow> string" where
  "response_except (Exn TimeoutExc m) =
     ''Request to Ollama timed out after 60 seconds. The model might be too large or busy.''"
| "response_except (Exn RequestExc m) = ''Request error: '' @ m"
| "response_except (Exn OtherExc m) = ''Unexpected error: '' @ m"

definition get_ollama_response ::
  "'img env \<Rightarrow> string \<Rightarrow> string \<Rightarrow> json \<Rightarrow> 'img event list \<Rightarrow>
     (string + json) \<times> 'img event list" where
  "get_ollama_response env prompt image_base64 model log =
     (case requests_post env OLLAMA_API_URL (request_data prompt image_base64 model) 60 log of
        (reply, log') \<Rightarrow>
          (case response_of_reply reply of
             Inl e \<Rightarrow> (Inl (response_except e), log')
           | Inr r \<Rightarrow> (r, log')))"

subsection \<open>\<^verbatim>\<open>convert_pdf_to_image\<close>\<close>

definition convert_pdf_to_image ::
  "'img env \<Rightarrow> byte list option \<Rightarrow> 'img event list \<Rightarrow> (string + string) \<times> 'img event list" where
  "convert_pdf_to_image env uploaded_file log =
     (case uploaded_file of
        None \<Rightarrow> (Inl ''No file uploaded.'', log)
      | Some bs \<Rightarrow>
          (case convert_from_bytes env bs of
             Inl e \<Rightarrow> (Inl (''Error processing PDF: '' @ exn_str e), log @ [PdfDecode bs])
           | Inr images \<Rightarrow>
               (case images of
                  [] \<Rightarrow> (Inl ''Could not extract any images from the PDF.'', log @ [PdfDecode bs])
                | first_page # other_pages \<Rightarrow>
                    (case save_jpeg env first_page of
                       Inl e \<Rightarrow>
                         (Inl (''Error processing PDF: '' @ exn_str e),
                          log @ [PdfDecode bs, JpegSave first_page])
                     | Inr img_byte_arr \<Rightarrow>
                         (Inr (b64encode img_byte_arr),
                          log @ [PdfDecode bs, JpegSave first_page])))))"

subsection \<open>The page: status banner, widgets, model selection\<close>

text \<open>
  What the user did on the page: the widgets' values in the run. The slider gives a
  multiple of 10 between 30 and 300. \<open>model_choice\<close> is the position the user picked in
  the model select box.
\<close>

record inputs =
  input_text :: string
  uploaded_file :: "byte list option"
  model_choice :: nat
  submit1 :: bool
  submit3 :: bool
  timeout_seconds :: nat

definition slider_value :: "nat \<Rightarrow> bool" where
  "slider_value t = (30 \<le> t \<and> t \<le> 300 \<and> t mod 10 = 0)"

text \<open>The two signs of the status banner, as their UTF-8 bytes.\<close>

definition warning_sign :: string where
  "warning_sign = [CHR 0xE2, CHR 0x9A, CHR 0xA0, CHR 0xEF, CHR 0xB8, CHR 0x8F]"

definition check_mark :: string where
  "check_mark = [CHR 0xE2, CHR 0x9C, CHR 0x85]"

definition status_banner :: "bool \<Rightarrow> string \<Rightarrow> 'img event list" where
  "status_banner status message =
     (if \<not> status then
        [StError (warning_sign @ '' '' @ message),
         StInfo ''Please make sure Ollama is running and accessible before proceeding.'']
      else [StSuccess (check_mark @ '' '' @ message)])"

definition default_model_options :: pydict where
  "default_model_options = [(JStr ''Gemma 3'', JStr ''gemma3'')]"

text \<open>
  The dict comprehension \<^verbatim>\<open>{model["name"]: model["name"] for model in \<dots>}\<close>;
  \<open>None\<close> when an element raises.
\<close>

fun collect_models :: "json list \<Rightarrow> pydict \<Rightarrow> pydict option" where
  "collect_models [] d = Some d"
| "collect_models (model # rest) d =
     (case py_item_name model of
        None \<Rightarrow> None
      | Some name \<Rightarrow> if hashable name then collect_models rest (dict_set d name name) else None)"

text \<open>The body of the \<^verbatim>\<open>try\<close> of the model selection; \<open>None\<close> when it raises.\<close>

definition models_of_reply :: "exn + response \<Rightarrow> pydict option" where
  "models_of_reply reply =
     (case reply of
        Inl e \<Rightarrow> None
      | Inr response \<Rightarrow>
          if status_code response = 200 then
            (case json_body response of
               Inl e \<Rightarrow> None
             | Inr j \<Rightarrow>
                 (case py_get j ''models'' (JArr []) of
                    Inl e \<Rightarrow> None
                  | Inr ms \<Rightarrow>
                      (case py_iter ms of
                         None \<Rightarrow> None
                       | Some xs \<Rightarrow>
                           (case collect_models xs [] of
                              None \<Rightarrow> None
                            | Some available_models \<Rightarrow>
                                if available_models \<noteq> [] then Some available_models
                                else Some default_model_options))))
          else Some default_model_options)"

definition select_model_options ::
  "'img env \<Rightarrow> bool \<Rightarrow> 'img event list \<Rightarrow> pydict \<times> 'img event list" where
  "select_model_options env status log =
     (if status then
        (case requests_get env tags_url 5 log of
           (reply, log') \<Rightarrow>
             (case models_of_reply reply of
                None \<Rightarrow> (default_model_options, log')
              | Some opts \<Rightarrow> (opts, log')))
      else (default_model_options, log))"

text \<open>
  \<^verbatim>\<open>st.selectbox\<close> returns the option at the position the user picked, the first
  option when the pick does not exist, and \<^verbatim>\<open>None\<close> when there is no option.
\<close>

definition selectbox :: "json list \<Rightarrow> nat \<Rightarrow> json option" where
  "selectbox opts i =
     (case opts of
        [] \<Rightarrow> None
      | x # xs \<Rightarrow> if i < length opts then Some (opts ! i) else Some x)"

record 'img page =
  ollama_status :: bool
  status_message :: string
  model_options :: pydict
  selected_model :: "json option"
  page_log :: "'img event list"

text \<open>Lines 90 to 123 of the script, run on every load of the page.\<close>

definition page_load :: "'img env \<Rightarrow> inputs \<Rightarrow> 'img page" where
  "page_load env inp =
     (case check_ollama_status env [] of
        ((status, message), log1) \<Rightarrow>
          (let log2 = log1 @ status_banner status message;
               log3 = log2 @ (if uploaded_file inp \<noteq> None
                              then [StWrite ''PDF Uploaded Successfully''] else [])
           in case select_model_options env status log3 of
                (opts, log4) \<Rightarrow>
                  \<lparr>ollama_status = status, status_message = message, model_options = opts,
                   selected_model = selectbox (dict_keys opts) (model_choice inp),
                   page_log = log4\<rparr>))"

subsection \<open>The prompts\<close>

definition input_prompt1 :: string where
  "input_prompt1 =
      ''\<newline>'' @
      ''You are an experienced Technical Human Resource Manager. Please review the provided resume image against the job description below:\<newline>'' @
      ''\<newline>'' @
      ''Job Description:\<newline>'' @
      ''{job_description}\<newline>'' @
      ''\<newline>'' @
      ''Your task is to evaluate whether the candidate's profile aligns with the role. \<newline>'' @
      ''Highlight the strengths and weaknesses of the applicant in relation to the specified job requirements.\<newline>'' @
      ''Provide a comprehensive, professional evaluation.\<newline>''"

definition input_prompt3 :: string where
  "input_prompt3 =
      ''\<newline>'' @
      ''You are an skilled ATS (Applicant Tracking System) scanner with a deep understanding of data science and ATS functionality.\<newline>'' @
      ''Please evaluate the resume image against the job description below:\<newline>'' @
      ''\<newline>'' @
      ''Job Description:\<newline>'' @
      ''{job_description}\<newline>'' @
      ''\<newline>'' @
      ''Your response should have this format:\<newline>'' @
      ''1. Overall Match Percentage: X% (Give a specific percentage)\<newline>'' @
      ''2. Keywords Missing: List of important keywords from the job description that are missing from the resume\<newline>'' @
      ''3. Final Thoughts: Brief evaluation of the candidate's fit for the position\<newline>''"

subsection \<open>The submit handler\<close>

text \<open>Step 2: the prompt of the button that was clicked.\<close>

definition select_prompt :: "inputs \<Rightarrow> string option" where
  "select_prompt inp =
     (if submit1 inp then py_format input_prompt1 (input_text inp)
      else py_format input_prompt3 (input_text inp))"

text \<open>\<^verbatim>\<open>model_options[selected_model]\<close>; \<open>None\<close> is the \<^verbatim>\<open>KeyError\<close>.\<close>

definition lookup_model :: "pydict \<Rightarrow> json option \<Rightarrow> json option" where
  "lookup_model opts sel = dict_get opts (case sel of None \<Rightarrow> JNull | Some k \<Rightarrow> k)"

text \<open>Lines 201 to 210: the result, or the error with its troubleshooting steps.\<close>

definition show_response :: "'img env \<Rightarrow> string + json \<Rightarrow> 'img event list" where
  "show_response env result =
     (case result of
        Inr response \<Rightarrow>
          [StSuccess (''Analysis completed in '' @ ollama_time_2f env @ '' seconds!''),
           StSubheader ''Analysis Results'',
           StMarkdown response]
      | Inl response \<Rightarrow>
          [StError (''Error: '' @ response),
           StInfo ''Try the following troubleshooting steps:'',
           StInfo (''1. Check if Ollama is running with 'ollama list'' @ [CHR 0x27]),
           StInfo (''2. Verify the model exists with 'ollama list'' @ [CHR 0x27]),
           StInfo (''3. If needed, pull the model with 'ollama pull gemma3'' @ [CHR 0x27])])"

text \<open>Lines 181 to 210: the branch taken once the page image exists.\<close>

definition ask_ollama ::
  "'img env \<Rightarrow> inputs \<Rightarrow> 'img page \<Rightarrow> string \<Rightarrow> 'img event list \<Rightarrow> 'img event list" where
  "ask_ollama env inp pg image_base64 log =
     (let log1 = log @ [PhInfo (''PDF processed in '' @ pdf_time_2f env @
                                '' seconds. Getting response from Ollama...'')]
      in case select_prompt inp of
           None \<Rightarrow> log1 @ [Uncaught ''str.format'']
         | Some prompt \<Rightarrow>
             (case lookup_model (model_options pg) (selected_model pg) of
                None \<Rightarrow> log1 @ [Uncaught ''KeyError'']
              | Some model_id \<Rightarrow>
                  (case get_ollama_response env prompt image_base64 model_id log1 of
                     (result, log2) \<Rightarrow> log2 @ [PhEmpty] @ show_response env result)))"

text \<open>Lines 161 to 210: what the run does after the page is drawn.\<close>

definition on_submit :: "'img env \<Rightarrow> inputs \<Rightarrow> 'img page \<Rightarrow> 'img event list" where
  "on_submit env inp pg =
     (if submit1 inp \<or> submit3 inp then
        (if \<not> ollama_status pg then
           [StError ''Cannot process request because Ollama is not accessible.'']
         else if uploaded_file inp = None then [StWarning ''Please upload a resume'']
         else if input_text inp = [] then [StWarning ''Please enter a job description'']
         else
           (case convert_pdf_to_image env (uploaded_file inp)
                   [PhInfo ''Processing PDF... This may take a moment''] of
              (Inl result, log) \<Rightarrow> log @ [PhError result]
            | (Inr image_base64, log) \<Rightarrow> ask_ollama env inp pg image_base64 log))
      else [])"

text \<open>One run of the whole script: the events of the page, then those of the handler.\<close>

definition script :: "'img env \<Rightarrow> inputs \<Rightarrow> 'img event list" where
  "script env inp = (let pg = page_load env inp in page_log pg @ on_submit env inp pg)"

section \<open>Concrete runs\<close>

text \<open>
  A server that is up and has one model, a three-page PDF whose pages are numbered, and a
  user who filled in the form and pressed the first button. The other environments differ
  from it in one reply each.
\<close>

definition tags_reply :: "json \<Rightarrow> response" where
  "tags_reply models =
     \<lparr>status_code = 200, body_text = ''(tags)'', json_body = Inr (JObj [(''models'', models)])\<rparr>"

definition env_ok :: "nat env" where
  "env_ok =
     \<lparr>get_reply = (\<lambda>n url t. Inr (tags_reply (JArr [JObj [(''name'', JStr ''llava:7b'')]]))),
      post_reply = (\<lambda>url d t.
         Inr \<lparr>status_code = 200, body_text = ''(generate)'',
              json_body = Inr (JObj [(''model'', JStr ''llava:7b''),
                                     (''response'', JStr ''**Match: 80%**'')])\<rparr>),
      convert_from_bytes = (\<lambda>bs. Inr [1, 2, 3]),
      save_jpeg = (\<lambda>p. Inr [of_nat p, 97, 110]),
      pdf_time_2f = ''0.52'',
      ollama_time_2f = ''3.10''\<rparr>"

definition env_down :: "nat env" where
  "env_down = env_ok\<lparr>get_reply := (\<lambda>n url t. Inl (Exn RequestExc ''Connection refused''))\<rparr>"


definition env_timeout :: "nat env" where
  "env_timeout = env_ok\<lparr>post_reply := (\<lambda>url d t. Inl (Exn TimeoutExc ''Read timed out.''))\<rparr>"

definition env_refused :: "nat env" where
  "env_refused = env_ok\<lparr>post_reply := (\<lambda>url d t. Inl (Exn RequestExc ''Connection refused''))\<rparr>"

definition env_broken :: "nat env" where
  "env_broken = env_ok\<lparr>post_reply := (\<lambda>url d t. Inl (Exn OtherExc ''out of memory''))\<rparr>"

definition reply_404 :: response where
  "reply_404 = \<lparr>status_code = 404, body_text = ''model not found'',
                 json_body = Inl (Exn RequestExc ''Expecting value'')\<rparr>"

definition env_404 :: "nat env" where
  "env_404 = env_ok\<lparr>post_reply := (\<lambda>url d t. Inr reply_404)\<rparr>"

definition reply_list :: response where
  "reply_list = \<lparr>status_code = 200, body_text = ''[]'', json_body = Inr (JArr [])\<rparr>"

definition env_list :: "nat env" where
  "env_list = env_ok\<lparr>post_reply := (\<lambda>url d t. Inr reply_list)\<rparr>"

definition reply_not_json :: response where
  "reply_not_json =
     \<lparr>status_code = 200, body_text = ''<html>busy</html>'',
      json_body = Inl (Exn RequestExc ''Expecting value: line 1 column 1 (char 0)'')\<rparr>"

definition env_not_json :: "nat env" where
  "env_not_json = env_ok\<lparr>post_reply := (\<lambda>url d t. Inr reply_not_json)\<rparr>"

definition reply_number :: response where
  "reply_number = \<lparr>status_code = 200, body_text = ''7'', json_body = Inr (JNum 7)\<rparr>"

definition env_number :: "nat env" where
  "env_number = env_ok\<lparr>post_reply := (\<lambda>url d t. Inr reply_number)\<rparr>"

definition env_corrupt :: "nat env" where
  "env_corrupt =
     env_ok\<lparr>convert_from_bytes := (\<lambda>bs. Inl (Exn OtherExc ''Unable to get page count.''))\<rparr>"

definition inp_ok :: inputs where
  "inp_ok =
     \<lparr>input_text = ''Data engineer'', uploaded_file = Some [37, 80, 68, 70],
      model_choice = 0, submit1 = True, submit3 = False, timeout_seconds = 60\<rparr>"

definition inp_both :: inputs where
  "inp_both = inp_ok\<lparr>submit3 := True\<rparr>"

definition inp_slow :: inputs where
  "inp_slow = inp_ok\<lparr>timeout_seconds := 120\<rparr>"

definition inp_empty :: inputs where
  "inp_empty = inp_ok\<lparr>input_text := [], uploaded_file := None\<rparr>"

text \<open>
  Readers of a record of events: the timeouts of the POST requests, the errors shown, the
  values given to \<^verbatim>\<open>st.markdown\<close>.
\<close>

fun post_timeouts :: "'img event list \<Rightarrow> nat list" where
  "post_timeouts [] = []"
| "post_timeouts (HttpPost url d t # es) = t # post_timeouts es"
| "post_timeouts (e # es) = post_timeouts es"

fun shown_errors :: "'img event list \<Rightarrow> string list" where
  "shown_errors [] = []"
| "shown_errors (StError m # es) = m # shown_errors es"
| "shown_errors (e # es) = shown_errors es"

fun shown_results :: "'img event list \<Rightarrow> json list" where
  "shown_results [] = []"
| "shown_results (StMarkdown v # es) = v # shown_results es"
| "shown_results (e # es) = shown_results es"

definition env_no_field :: "nat env" where
  "env_no_field =
     env_ok\<lparr>post_reply := (\<lambda>url d t.
        Inr \<lparr>status_code = 200, body_text = ''(generate)'',
             json_body = Inr (JObj [(''model'', JStr ''llava:7b'')])\<rparr>)\<rparr>"

section \<open>What each function records\<close>

lemma check_ollama_status_log:
  "snd (check_ollama_status env log) = log @ [HttpGet tags_url 5]"
  by (simp add: check_ollama_status_def requests_get_def split: sum.split)

lemma select_model_options_log:
  "snd (select_model_options env status log) =
     (if status then log @ [HttpGet tags_url 5] else log)"
  by (simp add: select_model_options_def requests_get_def split: option.split)

lemma get_ollama_response_log:
  "snd (get_ollama_response env prompt image_base64 model log) =
     log @ [HttpPost OLLAMA_API_URL (request_data prompt image_base64 model) 60]"
  by (simp add: get_ollama_response_def requests_post_def split: sum.split)

lemma convert_pdf_to_image_gets:
  "filter is_get (snd (convert_pdf_to_image env doc log)) = filter is_get log"
  by (simp add: convert_pdf_to_image_def split: option.split sum.split list.split)

lemma convert_pdf_to_image_posts:
  "filter is_post (snd (convert_pdf_to_image env doc log)) = filter is_post log"
  by (simp add: convert_pdf_to_image_def split: option.split sum.split list.split)

lemma show_response_gets: "filter is_get (show_response env result) = []"
  by (simp add: show_response_def split: sum.split)

lemma get_ollama_response_logD:
  "get_ollama_response env prompt image_base64 model log = (result, log') \<Longrightarrow>
     log' = log @ [HttpPost OLLAMA_API_URL (request_data prompt image_base64 model) 60]"
  using get_ollama_response_log [of env prompt image_base64 model log] by simp

lemma ask_ollama_gets:
  "filter is_get (ask_ollama env inp pg image_base64 log) = filter is_get log"
  by (auto simp add: ask_ollama_def Let_def show_response_gets
      split: option.split prod.split dest!: get_ollama_response_logD)

lemma convert_pdf_to_image_getsD:
  "convert_pdf_to_image env doc log = (result, log') \<Longrightarrow>
     filter is_get log' = filter is_get log"
  using convert_pdf_to_image_gets [of env doc log] by simp

lemma on_submit_gets: "filter is_get (on_submit env inp pg) = []"
  by (auto simp add: on_submit_def ask_ollama_gets split: prod.split sum.split
      dest!: convert_pdf_to_image_getsD)

lemma page_load_log:
  "page_log (page_load env inp) =
     [HttpGet tags_url 5] @
     status_banner (ollama_status (page_load env inp)) (status_message (page_load env inp)) @
     (if uploaded_file inp \<noteq> None then [StWrite ''PDF Uploaded Successfully''] else []) @
     (if ollama_status (page_load env inp) then [HttpGet tags_url 5] else [])"
  using check_ollama_status_log [of env "[]"]
  by (auto simp add: page_load_def Let_def split: prod.split
      dest: arg_cong [where f = snd] simp: select_model_options_log)

lemma script_gets:
  "filter is_get (script env inp) =
     (if ollama_status (page_load env inp) then [HttpGet tags_url 5, HttpGet tags_url 5]
      else [HttpGet tags_url 5])"
proof -
  have "filter is_get (page_log (page_load env inp)) =
     (if ollama_status (page_load env inp) then [HttpGet tags_url 5, HttpGet tags_url 5]
      else [HttpGet tags_url 5])"
    by (subst page_load_log) (simp add: status_banner_def)
  then show ?thesis
    by (simp add: script_def Let_def on_submit_gets)
qed

subsection \<open>The status probe and the model list\<close>






subsection \<open>The result of \<^verbatim>\<open>get_ollama_response\<close>\<close>

lemma py_get_not_object:
  "\<forall>kvs. j \<noteq> JObj kvs \<Longrightarrow>
   py_get j key dflt = Inl (Exn OtherExc ([CHR 0x27] @ type_name j @ [CHR 0x27] @
        '' object has no attribute 'get'' @ [CHR 0x27]))"
  by (cases j) simp_all

lemma get_ollama_response_fst:
  "fst (get_ollama_response env prompt image_base64 model log) =
     (case response_of_reply (post_reply env OLLAMA_API_URL
             (request_data prompt image_base64 model) 60) of
        Inl e \<Rightarrow> Inl (response_except e) | Inr r \<Rightarrow> r)"
  by (simp add: get_ollama_response_def requests_post_def split: sum.split)

lemma get_ollama_response_eq:
  "get_ollama_response env prompt image_base64 model log =
     (fst (get_ollama_response env prompt image_base64 model log),
      log @ [HttpPost OLLAMA_API_URL (request_data prompt image_base64 model) 60])"
  using get_ollama_response_log [of env prompt image_base64 model log]
  by (metis prod.collapse)

lemma status_error_not_exception: "''Error: '' @ a \<noteq> response_except e"
  by (cases e; cases "exn_cls e") auto

lemma response_except_classes:
  "exn_cls e \<noteq> exn_cls e' \<Longrightarrow> response_except e \<noteq> response_except e'"
  by (cases e; cases e'; cases "exn_cls e"; cases "exn_cls e'") auto

lemma response_except_forms:
  "response_except e = ''Request to Ollama timed out after 60 seconds. The model might be too large or busy.''
   \<or> (\<exists>m. response_except e = ''Request error: '' @ m)
   \<or> (\<exists>m. response_except e = ''Unexpected error: '' @ m)"
  by (cases e; cases "exn_cls e") auto

lemma failure_forms:
  assumes "fst (get_ollama_response env prompt image_base64 model log) = Inl msg"
  shows "(\<exists>code body. msg = ''Error: '' @ code @ '' - '' @ body)
   \<or> msg = ''Request to Ollama timed out after 60 seconds. The model might be too large or busy.''
   \<or> (\<exists>m. msg = ''Request error: '' @ m)
   \<or> (\<exists>m. msg = ''Unexpected error: '' @ m)"
proof (cases "response_of_reply (post_reply env OLLAMA_API_URL (request_data prompt image_base64 model) 60)")
  case (Inl e)
  then have "msg = response_except e" using assms by (simp add: get_ollama_response_fst)
  then show ?thesis using response_except_forms [of e] by auto
next
  case (Inr r)
  then have "r = Inl msg" using assms by (simp add: get_ollama_response_fst)
  then have "\<exists>code body. msg = ''Error: '' @ code @ '' - '' @ body"
    using Inr by (auto simp add: response_of_reply_def split: sum.splits if_splits)
  then show ?thesis by blast
qed

lemma show_response_posts: "filter is_post (show_response env result) = []"
  by (simp add: show_response_def split: sum.split)

lemma ask_ollama_posts:
  "select_prompt inp = Some prompt \<Longrightarrow>
   lookup_model (model_options pg) (selected_model pg) = Some model_id \<Longrightarrow>
   filter is_post (ask_ollama env inp pg image_base64 log) =
     filter is_post log @ [HttpPost OLLAMA_API_URL (request_data prompt image_base64 model_id) 60]"
  by (auto simp add: ask_ollama_def Let_def show_response_posts
      split: prod.split dest!: get_ollama_response_logD)

subsection \<open>The prompts, formatted\<close>

lemma py_format_prompt1:
  "py_format input_prompt1 jd = Some (
      ''\<newline>'' @
      ''You are an experienced Technical Human Resource Manager. Please review the provided resume image against the job description below:\<newline>'' @
      ''\<newline>'' @
      ''Job Description:\<newline>'' @ jd @ ''\<newline>'' @
      ''\<newline>'' @
      ''Your task is to evaluate whether the candidate's profile aligns with the role. \<newline>'' @
      ''Highlight the strengths and weaknesses of the applicant in relation to the specified job requirements.\<newline>'' @
      ''Provide a comprehensive, professional evaluation.\<newline>'')"
  by (simp add: py_format_def input_prompt1_def)

lemma py_format_prompt3:
  "py_format input_prompt3 jd = Some (
      ''\<newline>'' @
      ''You are an skilled ATS (Applicant Tracking System) scanner with a deep understanding of data science and ATS functionality.\<newline>'' @
      ''Please evaluate the resume image against the job description below:\<newline>'' @
      ''\<newline>'' @
      ''Job Description:\<newline>'' @ jd @ ''\<newline>'' @
      ''\<newline>'' @
      ''Your response should have this format:\<newline>'' @
      ''1. Overall Match Percentage: X% (Give a specific percentage)\<newline>'' @
      ''2. Keywords Missing: List of important keywords from the job description that are missing from the resume\<newline>'' @
      ''3. Final Thoughts: Brief evaluation of the candidate's fit for the position\<newline>'')"
  by (simp add: py_format_def input_prompt3_def)

lemma select_prompt_defined: "\<exists>prompt. select_prompt inp = Some prompt"
  by (simp add: select_prompt_def py_format_prompt1 py_format_prompt3)

subsection \<open>The slider has no reader\<close>

lemma page_load_slider: "page_load env (inp\<lparr>timeout_seconds := t\<rparr>) = page_load env inp"
  by (simp add: page_load_def)

lemma ask_ollama_slider:
  "ask_ollama env (inp\<lparr>timeout_seconds := t\<rparr>) pg image_base64 log =
     ask_ollama env inp pg image_base64 log"
  by (simp add: ask_ollama_def select_prompt_def)

lemma on_submit_slider: "on_submit env (inp\<lparr>timeout_seconds := t\<rparr>) pg = on_submit env inp pg"
  by (simp add: on_submit_def ask_ollama_slider split: prod.split sum.split)

lemma slider_unused: "script env (inp\<lparr>timeout_seconds := t\<rparr>) = script env inp"
  by (simp add: script_def page_load_slider on_submit_slider)

section \<open>The claims\<close>

subsection \<open>C1: the request timeout\<close>

text \<open>
  Claim C1 says that the inference request is bounded by the value of the timeout slider
  and that the timeout error names that value. The script reads the slider into
  \<^verbatim>\<open>timeout_seconds\<close> and never uses it: \<^verbatim>\<open>requests.post\<close> is called with
  \<^verbatim>\<open>timeout=60\<close> and the message says "60 seconds". With the slider at 120 and a
  request that times out, the one POST request of the run carries the timeout 60 and the
  error shown names 60 seconds.
\<close>

theorem timeout_slider_not_applied:
  "timeout_seconds inp_slow = 120 \<and> slider_value 120 \<and>
   post_timeouts (script env_timeout inp_slow) = [60] \<and>
   shown_errors (script env_timeout inp_slow) =
     [''Error: Request to Ollama timed out after 60 seconds. The model might be too large or busy.'']"
  by code_simp

subsection \<open>C2: requests to the status endpoint\<close>

text \<open>
  Claim C2, as amended: \<^verbatim>\<open>check_ollama_status\<close> sends exactly one GET request to the
  status endpoint, with a timeout of 5 seconds and no retry. A run of the script sends that
  request and, when it reported the server reachable, one more GET request to the same
  endpoint to fill the model list: two requests when reachable, one when not.
\<close>

theorem status_requests_per_run:
  "snd (check_ollama_status env log) = log @ [HttpGet tags_url 5] \<and>
   filter is_get (script env inp) =
     (if ollama_status (page_load env inp) then [HttpGet tags_url 5, HttpGet tags_url 5]
      else [HttpGet tags_url 5])"
  by (simp only: check_ollama_status_log script_gets)

theorem status_requests_per_run_witness:
  "\<not> ollama_status (page_load env_down inp_ok) \<and>
   filter is_get (script env_down inp_ok) = [HttpGet tags_url 5]"
proof -
  have a: "\<not> ollama_status (page_load env_down inp_ok)" by code_simp
  show ?thesis using status_requests_per_run [of env_down "[]" inp_ok] a by simp
qed

text \<open>
  The claim as stated, exactly one GET request per page load, fails when the server is
  reachable: the run sends two.
\<close>

theorem two_status_requests_when_reachable:
  "length (filter is_get (script env_ok inp_ok)) = 2 \<and>
   \<not> length (filter is_get (script env_ok inp_ok)) = 1"
  by code_simp

subsection \<open>C3: missing job description or document\<close>

text \<open>
  Claim C3, as amended: when the job description is empty or the document is absent,
  pressing either button runs neither the rasterizer nor the inference client and sends no
  request. If the probe reported the server reachable, a warning names the missing input
  ("Please upload a resume" when the document is absent, otherwise "Please enter a job
  description"); if it reported the server unreachable, the "Cannot process request" error
  is shown instead.
\<close>

theorem missing_input_short_circuits:
  assumes "submit1 inp \<or> submit3 inp"
    and "input_text inp = [] \<or> uploaded_file inp = None"
  shows "on_submit env inp pg =
           (if \<not> ollama_status pg
            then [StError ''Cannot process request because Ollama is not accessible.'']
            else if uploaded_file inp = None then [StWarning ''Please upload a resume'']
            else [StWarning ''Please enter a job description'']) \<and>
         filter (\<lambda>e. is_get e \<or> is_post e \<or> is_pdf_decode e \<or> is_jpeg_save e)
           (on_submit env inp pg) = []"
  using assms by (auto simp add: on_submit_def)

theorem missing_input_short_circuits_witness:
  "(submit1 inp_empty \<or> submit3 inp_empty) \<and>
   (input_text inp_empty = [] \<or> uploaded_file inp_empty = None) \<and>
   ollama_status (page_load env_ok inp_empty) \<and>
   on_submit env_ok inp_empty (page_load env_ok inp_empty) = [StWarning ''Please upload a resume'']"
proof -
  have a: "submit1 inp_empty \<or> submit3 inp_empty" by code_simp
  have b: "input_text inp_empty = [] \<or> uploaded_file inp_empty = None" by code_simp
  have c: "ollama_status (page_load env_ok inp_empty)" by code_simp
  have d: "uploaded_file inp_empty = None" by code_simp
  show ?thesis
    using missing_input_short_circuits [OF a b, of env_ok "page_load env_ok inp_empty"] a b c d
    by simp
qed

text \<open>
  The claim as stated promises a warning for the missing input whatever the probe said.
  With the server unreachable, an empty job description and no document, the handler shows
  the error and no warning.
\<close>

theorem no_warning_when_unreachable:
  "input_text inp_empty = [] \<and> uploaded_file inp_empty = None \<and> submit1 inp_empty \<and>
   on_submit env_down inp_empty (page_load env_down inp_empty) =
     [StError ''Cannot process request because Ollama is not accessible.''] \<and>
   filter is_warning (on_submit env_down inp_empty (page_load env_down inp_empty)) = []"
  by code_simp

subsection \<open>C4: the server is unreachable\<close>

text \<open>
  Claim C4: whenever the probe reported the server unreachable, pressing either button
  shows the "Cannot process request" error at once, and the run never calls the
  rasterizer: it neither decodes the PDF nor saves a page.
\<close>

theorem unreachable_blocks_submission:
  assumes "\<not> ollama_status (page_load env inp)" and "submit1 inp \<or> submit3 inp"
  shows "on_submit env inp (page_load env inp) =
           [StError ''Cannot process request because Ollama is not accessible.''] \<and>
         filter is_pdf_decode (script env inp) = [] \<and>
         filter is_jpeg_save (script env inp) = []"
proof -
  have h: "on_submit env inp (page_load env inp) =
           [StError ''Cannot process request because Ollama is not accessible.'']"
    using assms by (simp add: on_submit_def)
  have "page_log (page_load env inp) =
     [HttpGet tags_url 5] @ status_banner False (status_message (page_load env inp)) @
     (if uploaded_file inp \<noteq> None then [StWrite ''PDF Uploaded Successfully''] else [])"
    using assms(1) by (subst page_load_log) simp
  then show ?thesis using h
    by (simp add: script_def Let_def status_banner_def)
qed

theorem unreachable_blocks_submission_witness:
  "\<not> ollama_status (page_load env_down inp_ok) \<and> (submit1 inp_ok \<or> submit3 inp_ok) \<and>
   on_submit env_down inp_ok (page_load env_down inp_ok) =
     [StError ''Cannot process request because Ollama is not accessible.''] \<and>
   filter is_pdf_decode (script env_down inp_ok) = []"
proof -
  have a: "\<not> ollama_status (page_load env_down inp_ok)" by code_simp
  have b: "submit1 inp_ok \<or> submit3 inp_ok" by code_simp
  show ?thesis using unreachable_blocks_submission [OF a b] a b by simp
qed

subsection \<open>C5: one image, from the first page\<close>

text \<open>
  Claim C5: for every document that decodes to one or more pages, the rasterizer saves
  exactly one image, the first page, whatever the other pages are, and returns the base64
  encoding of the JPEG bytes written for it.
\<close>

theorem first_page_only:
  assumes "convert_from_bytes env bs = Inr (first_page # other_pages)"
    and "save_jpeg env first_page = Inr jpeg"
  shows "convert_pdf_to_image env (Some bs) log =
           (Inr (b64encode jpeg), log @ [PdfDecode bs, JpegSave first_page])"
  using assms by (simp add: convert_pdf_to_image_def)

theorem first_page_only_witness:
  "convert_from_bytes env_ok [37, 80, 68, 70] = Inr (1 # [2, 3]) \<and>
   save_jpeg env_ok 1 = Inr [1, 97, 110] \<and>
   convert_pdf_to_image env_ok (Some [37, 80, 68, 70]) [] =
     (Inr ''AWFu'', [PdfDecode [37, 80, 68, 70], JpegSave 1])"
proof -
  have a: "convert_from_bytes env_ok [37, 80, 68, 70] = Inr (1 # [2, 3])" by code_simp
  have b: "save_jpeg env_ok 1 = Inr [1, 97, 110]" by code_simp
  have c: "b64encode [1, 97, 110] = ''AWFu''" by code_simp
  show ?thesis using first_page_only [OF a b, of "[]"] a b c by simp
qed

subsection \<open>C6: the fallback model\<close>



subsection \<open>C7: the response field\<close>

text \<open>
  Claim C7: for every inference reply with HTTP 200 whose JSON body is an object, the
  result of the client is the value of the \<^verbatim>\<open>response\<close> field, unchanged, and the fixed
  text "No response generated" if the field is absent; the interface gives that very value
  to \<^verbatim>\<open>st.markdown\<close>, after the success line and the heading.
\<close>

theorem response_field_shown_verbatim:
  assumes "select_prompt inp = Some prompt"
    and "lookup_model (model_options pg) (selected_model pg) = Some model_id"
    and "post_reply env OLLAMA_API_URL (request_data prompt image_base64 model_id) 60 = Inr r"
    and "status_code r = 200"
    and "json_body r = Inr (JObj kvs)"
  shows "fst (get_ollama_response env prompt image_base64 model_id log) =
           Inr (case map_of kvs ''response'' of
                  Some x \<Rightarrow> x | None \<Rightarrow> JStr ''No response generated'') \<and>
         ask_ollama env inp pg image_base64 log =
           log @
           [PhInfo (''PDF processed in '' @ pdf_time_2f env @
                    '' seconds. Getting response from Ollama...''),
            HttpPost OLLAMA_API_URL (request_data prompt image_base64 model_id) 60,
            PhEmpty,
            StSuccess (''Analysis completed in '' @ ollama_time_2f env @ '' seconds!''),
            StSubheader ''Analysis Results'',
            StMarkdown (case map_of kvs ''response'' of
                          Some x \<Rightarrow> x | None \<Rightarrow> JStr ''No response generated'')]"
proof -
  have a: "fst (get_ollama_response env prompt image_base64 model_id l) =
           Inr (case map_of kvs ''response'' of
                  Some x \<Rightarrow> x | None \<Rightarrow> JStr ''No response generated'')" for l
    using assms(3-5) by (simp add: get_ollama_response_fst response_of_reply_def)
  show ?thesis
    using assms(1,2) a
    by (subst ask_ollama_def, subst get_ollama_response_eq)
       (simp add: Let_def show_response_def)
qed

theorem response_field_shown_verbatim_witness:
  "shown_results (ask_ollama env_ok inp_ok (page_load env_ok inp_ok) ''AWFu'' []) =
     [JStr ''**Match: 80%**''] \<and>
   shown_results (ask_ollama env_no_field inp_ok (page_load env_no_field inp_ok) ''AWFu'' []) =
     [JStr ''No response generated'']"
proof -
  let ?r = "\<lparr>status_code = 200, body_text = ''(generate)'',
              json_body = Inr (JObj [(''model'', JStr ''llava:7b''),
                                     (''response'', JStr ''**Match: 80%**'')])\<rparr>"
  let ?q = "\<lparr>status_code = 200, body_text = ''(generate)'',
             json_body = Inr (JObj [(''model'', JStr ''llava:7b'')])\<rparr>"
  obtain prompt where p: "select_prompt inp_ok = Some prompt"
    using select_prompt_defined by blast
  have m: "lookup_model (model_options (page_load env_ok inp_ok))
             (selected_model (page_load env_ok inp_ok)) = Some (JStr ''llava:7b'')"
    by code_simp
  have n: "lookup_model (model_options (page_load env_no_field inp_ok))
             (selected_model (page_load env_no_field inp_ok)) = Some (JStr ''llava:7b'')"
    by code_simp
  have a: "post_reply env_ok OLLAMA_API_URL (request_data prompt ''AWFu'' (JStr ''llava:7b'')) 60 = Inr ?r"
    by (simp add: env_ok_def)
  have b: "post_reply env_no_field OLLAMA_API_URL (request_data prompt ''AWFu'' (JStr ''llava:7b'')) 60 = Inr ?q"
    by (simp add: env_no_field_def env_ok_def)
  show ?thesis
    using response_field_shown_verbatim [OF p m a, of _ "[]"] response_field_shown_verbatim [OF p n b, of _ "[]"] by simp
qed

subsection \<open>C8: the failures of the inference client\<close>

text \<open>
  Claim C8, as amended: the inference client maps every failure to one of four distinct
  error results. A status other than 200 gives an error carrying the status code and the
  response body; a timeout gives a timeout error; any other request exception gives a
  "Request error" carrying the cause; any other exception gives an "Unexpected error"
  carrying the cause. The exception may be raised by the request or, on a reply with
  status 200, by reading its JSON body; a body that is JSON but not an object fails with
  the unexpected error of the missing \<^verbatim>\<open>get\<close>, and a body that is an object is the
  only success. Every failure has one of these four forms, the status error differs from
  every exception error, and exceptions of different classes give different errors.
\<close>

theorem inference_failure_classes:
  assumes "post_reply env OLLAMA_API_URL (request_data prompt image_base64 model) 60 = reply"
  shows
    "(\<forall>r. reply = Inr r \<and> status_code r \<noteq> 200 \<longrightarrow>
        fst (get_ollama_response env prompt image_base64 model log) =
          Inl (''Error: '' @ str_int (status_code r) @ '' - '' @ body_text r)) \<and>
     (\<forall>m. reply = Inl (Exn TimeoutExc m) \<longrightarrow>
        fst (get_ollama_response env prompt image_base64 model log) =
          Inl ''Request to Ollama timed out after 60 seconds. The model might be too large or busy.'') \<and>
     (\<forall>m. reply = Inl (Exn RequestExc m) \<longrightarrow>
        fst (get_ollama_response env prompt image_base64 model log) = Inl (''Request error: '' @ m)) \<and>
     (\<forall>m. reply = Inl (Exn OtherExc m) \<longrightarrow>
        fst (get_ollama_response env prompt image_base64 model log) = Inl (''Unexpected error: '' @ m)) \<and>
     (\<forall>r m. reply = Inr r \<and> status_code r = 200 \<and> json_body r = Inl (Exn TimeoutExc m) \<longrightarrow>
        fst (get_ollama_response env prompt image_base64 model log) =
          Inl ''Request to Ollama timed out after 60 seconds. The model might be too large or busy.'') \<and>
     (\<forall>r m. reply = Inr r \<and> status_code r = 200 \<and> json_body r = Inl (Exn RequestExc m) \<longrightarrow>
        fst (get_ollama_response env prompt image_base64 model log) = Inl (''Request error: '' @ m)) \<and>
     (\<forall>r m. reply = Inr r \<and> status_code r = 200 \<and> json_body r = Inl (Exn OtherExc m) \<longrightarrow>
        fst (get_ollama_response env prompt image_base64 model log) = Inl (''Unexpected error: '' @ m)) \<and>
     (\<forall>r j. reply = Inr r \<and> status_code r = 200 \<and> json_body r = Inr j \<and> (\<forall>kvs. j \<noteq> JObj kvs) \<longrightarrow>
        fst (get_ollama_response env prompt image_base64 model log) =
          Inl (''Unexpected error: '' @ [CHR 0x27] @ type_name j @ [CHR 0x27] @
               '' object has no attribute 'get'' @ [CHR 0x27])) \<and>
     (\<forall>r kvs. reply = Inr r \<and> status_code r = 200 \<and> json_body r = Inr (JObj kvs) \<longrightarrow>
        fst (get_ollama_response env prompt image_base64 model log) =
          Inr (case map_of kvs ''response'' of
                 Some x \<Rightarrow> x | None \<Rightarrow> JStr ''No response generated'')) \<and>
     (\<forall>msg. fst (get_ollama_response env prompt image_base64 model log) = Inl msg \<longrightarrow>
        (\<exists>code body. msg = ''Error: '' @ code @ '' - '' @ body)
        \<or> msg = ''Request to Ollama timed out after 60 seconds. The model might be too large or busy.''
        \<or> (\<exists>m. msg = ''Request error: '' @ m)
        \<or> (\<exists>m. msg = ''Unexpected error: '' @ m)) \<and>
     (\<forall>a e. ''Error: '' @ a \<noteq> response_except e) \<and>
     (\<forall>e e'. exn_cls e \<noteq> exn_cls e' \<longrightarrow> response_except e \<noteq> response_except e')"
proof (intro conjI)
  show "\<forall>r. reply = Inr r \<and> status_code r \<noteq> 200 \<longrightarrow>
        fst (get_ollama_response env prompt image_base64 model log) =
          Inl (''Error: '' @ str_int (status_code r) @ '' - '' @ body_text r)"
    using assms by (simp add: get_ollama_response_fst response_of_reply_def)
  show "\<forall>m. reply = Inl (Exn TimeoutExc m) \<longrightarrow>
        fst (get_ollama_response env prompt image_base64 model log) =
          Inl ''Request to Ollama timed out after 60 seconds. The model might be too large or busy.''"
    using assms by (simp add: get_ollama_response_fst response_of_reply_def)
  show "\<forall>m. reply = Inl (Exn RequestExc m) \<longrightarrow>
        fst (get_ollama_response env prompt image_base64 model log) = Inl (''Request error: '' @ m)"
    using assms by (simp add: get_ollama_response_fst response_of_reply_def)
  show "\<forall>m. reply = Inl (Exn OtherExc m) \<longrightarrow>
        fst (get_ollama_response env prompt image_base64 model log) = Inl (''Unexpected error: '' @ m)"
    using assms by (simp add: get_ollama_response_fst response_of_reply_def)
  show "\<forall>r m. reply = Inr r \<and> status_code r = 200 \<and> json_body r = Inl (Exn TimeoutExc m) \<longrightarrow>
        fst (get_ollama_response env prompt image_base64 model log) =
          Inl ''Request to Ollama timed out after 60 seconds. The model might be too large or busy.''"
    using assms by (simp add: get_ollama_response_fst response_of_reply_def)
  show "\<forall>r m. reply = Inr r \<and> status_code r = 200 \<and> json_body r = Inl (Exn RequestExc m) \<longrightarrow>
        fst (get_ollama_response env prompt image_base64 model log) = Inl (''Request error: '' @ m)"
    using assms by (simp add: get_ollama_response_fst response_of_reply_def)
  show "\<forall>r m. reply = Inr r \<and> status_code r = 200 \<and> json_body r = Inl (Exn OtherExc m) \<longrightarrow>
        fst (get_ollama_response env prompt image_base64 model log) = Inl (''Unexpected error: '' @ m)"
    using assms by (simp add: get_ollama_response_fst response_of_reply_def)
  show "\<forall>r j. reply = Inr r \<and> status_code r = 200 \<and> json_body r = Inr j \<and> (\<forall>kvs. j \<noteq> JObj kvs) \<longrightarrow>
        fst (get_ollama_response env prompt image_base64 model log) =
          Inl (''Unexpected error: '' @ [CHR 0x27] @ type_name j @ [CHR 0x27] @
               '' object has no attribute 'get'' @ [CHR 0x27])"
    using assms py_get_not_object
    by (simp add: get_ollama_response_fst response_of_reply_def)
  show "\<forall>r kvs. reply = Inr r \<and> status_code r = 200 \<and> json_body r = Inr (JObj kvs) \<longrightarrow>
        fst (get_ollama_response env prompt image_base64 model log) =
          Inr (case map_of kvs ''response'' of
                 Some x \<Rightarrow> x | None \<Rightarrow> JStr ''No response generated'')"
    using assms by (simp add: get_ollama_response_fst response_of_reply_def)
  show "\<forall>msg. fst (get_ollama_response env prompt image_base64 model log) = Inl msg \<longrightarrow>
        (\<exists>code body. msg = ''Error: '' @ code @ '' - '' @ body)
        \<or> msg = ''Request to Ollama timed out after 60 seconds. The model might be too large or busy.''
        \<or> (\<exists>m. msg = ''Request error: '' @ m)
        \<or> (\<exists>m. msg = ''Unexpected error: '' @ m)"
    using failure_forms by blast
  show "\<forall>a e. ''Error: '' @ a \<noteq> response_except e"
    using status_error_not_exception by blast
  show "\<forall>e e'. exn_cls e \<noteq> exn_cls e' \<longrightarrow> response_except e \<noteq> response_except e'"
    using response_except_classes by blast
qed

theorem inference_failure_classes_witness:
  "fst (get_ollama_response env_404 ''p'' ''AWFu'' (JStr ''llava:7b'') []) =
     Inl ''Error: 404 - model not found'' \<and>
   fst (get_ollama_response env_timeout ''p'' ''AWFu'' (JStr ''llava:7b'') []) =
     Inl ''Request to Ollama timed out after 60 seconds. The model might be too large or busy.'' \<and>
   fst (get_ollama_response env_refused ''p'' ''AWFu'' (JStr ''llava:7b'') []) =
     Inl ''Request error: Connection refused'' \<and>
   fst (get_ollama_response env_broken ''p'' ''AWFu'' (JStr ''llava:7b'') []) =
     Inl ''Unexpected error: out of memory'' \<and>
   fst (get_ollama_response env_not_json ''p'' ''AWFu'' (JStr ''llava:7b'') []) =
     Inl ''Request error: Expecting value: line 1 column 1 (char 0)'' \<and>
   fst (get_ollama_response env_number ''p'' ''AWFu'' (JStr ''llava:7b'') []) =
     Inl (''Unexpected error: '' @ [CHR 0x27] @ ''int'' @ [CHR 0x27] @
          '' object has no attribute 'get'' @ [CHR 0x27])"
proof -
  let ?d = "request_data ''p'' ''AWFu'' (JStr ''llava:7b'')"
  have a: "post_reply env_404 OLLAMA_API_URL ?d 60 = Inr reply_404"
    by (simp add: env_404_def env_ok_def)
  have b: "post_reply env_timeout OLLAMA_API_URL ?d 60 = Inl (Exn TimeoutExc ''Read timed out.'')"
    by (simp add: env_timeout_def env_ok_def)
  have c: "post_reply env_refused OLLAMA_API_URL ?d 60 = Inl (Exn RequestExc ''Connection refused'')"
    by (simp add: env_refused_def env_ok_def)
  have d: "post_reply env_broken OLLAMA_API_URL ?d 60 = Inl (Exn OtherExc ''out of memory'')"
    by (simp add: env_broken_def env_ok_def)
  have e: "status_code reply_404 \<noteq> 200" by (simp add: reply_404_def)
  have f: "''Error: '' @ str_int (status_code reply_404) @ '' - '' @ body_text reply_404 =
             ''Error: 404 - model not found''"
    by code_simp
  have g: "post_reply env_not_json OLLAMA_API_URL ?d 60 = Inr reply_not_json"
    by (simp add: env_not_json_def env_ok_def)
  have h: "status_code reply_not_json = 200"
    and i: "json_body reply_not_json =
              Inl (Exn RequestExc ''Expecting value: line 1 column 1 (char 0)'')"
    by (simp_all add: reply_not_json_def)
  have j: "post_reply env_number OLLAMA_API_URL ?d 60 = Inr reply_number"
    by (simp add: env_number_def env_ok_def)
  have k: "status_code reply_number = 200" and l: "json_body reply_number = Inr (JNum 7)"
    by (simp_all add: reply_number_def)
  show ?thesis
    using inference_failure_classes [OF a, of "[]"] inference_failure_classes [OF b, of "[]"]
      inference_failure_classes [OF c, of "[]"] inference_failure_classes [OF d, of "[]"]
      inference_failure_classes [OF g, of "[]"] inference_failure_classes [OF j, of "[]"]
      e f h i k l
    by simp
qed

text \<open>
  The claim as stated has three error results. A reply with HTTP 200 whose JSON body is a
  list is no status error, no timeout and no transport failure, and the client still fails,
  with a fourth result.
\<close>

theorem fourth_failure_class:
  "post_reply env_list OLLAMA_API_URL (request_data ''p'' ''AWFu'' (JStr ''llava:7b'')) 60 = Inr reply_list \<and>
   status_code reply_list = 200 \<and>
   fst (get_ollama_response env_list ''p'' ''AWFu'' (JStr ''llava:7b'') []) =
     Inl (''Unexpected error: '' @ [CHR 0x27] @ ''list'' @ [CHR 0x27] @ '' object has no attribute 'get'' @ [CHR 0x27])"
  by code_simp

subsection \<open>C9: a document that cannot be decoded\<close>

text \<open>
  Claim C9: for every document that \<^verbatim>\<open>pdf2image\<close> cannot decode or that decodes to no
  page, the rasterizer returns a failure describing the problem, the interface shows that
  message as an error, and the inference client is not called: the handler sends no POST
  request.
\<close>

theorem decode_failure_stops_submission:
  assumes "submit1 inp \<or> submit3 inp" and "ollama_status pg"
    and "uploaded_file inp = Some bs" and "input_text inp \<noteq> []"
    and "convert_from_bytes env bs = Inl e \<or> convert_from_bytes env bs = Inr []"
  shows "(let msg = (case convert_from_bytes env bs of
                       Inl e \<Rightarrow> ''Error processing PDF: '' @ exn_str e
                     | Inr pages \<Rightarrow> ''Could not extract any images from the PDF.'')
          in fst (convert_pdf_to_image env (Some bs) log) = Inl msg \<and>
             on_submit env inp pg =
               [PhInfo ''Processing PDF... This may take a moment'', PdfDecode bs, PhError msg]) \<and>
         filter is_post (on_submit env inp pg) = []"
  using assms by (auto simp add: on_submit_def convert_pdf_to_image_def Let_def)

theorem decode_failure_stops_submission_witness:
  "(submit1 inp_ok \<or> submit3 inp_ok) \<and> ollama_status (page_load env_corrupt inp_ok) \<and>
   uploaded_file inp_ok = Some [37, 80, 68, 70] \<and> input_text inp_ok \<noteq> [] \<and>
   convert_from_bytes env_corrupt [37, 80, 68, 70] = Inl (Exn OtherExc ''Unable to get page count.'') \<and>
   on_submit env_corrupt inp_ok (page_load env_corrupt inp_ok) =
     [PhInfo ''Processing PDF... This may take a moment'', PdfDecode [37, 80, 68, 70],
      PhError ''Error processing PDF: Unable to get page count.'']"
proof -
  have a: "submit1 inp_ok \<or> submit3 inp_ok" by code_simp
  have b: "ollama_status (page_load env_corrupt inp_ok)" by code_simp
  have c: "uploaded_file inp_ok = Some [37, 80, 68, 70]" by code_simp
  have d: "input_text inp_ok \<noteq> []" by code_simp
  have e: "convert_from_bytes env_corrupt [37, 80, 68, 70] = Inl (Exn OtherExc ''Unable to get page count.'')"
    by code_simp
  have f: "convert_from_bytes env_corrupt [37, 80, 68, 70] = Inl (Exn OtherExc ''Unable to get page count.'')
     \<or> convert_from_bytes env_corrupt [37, 80, 68, 70] = Inr []"
    using e by simp
  show ?thesis using decode_failure_stops_submission [OF a b c d f, of "[]"] a b c d e by (simp add: Let_def)
qed

subsection \<open>C10: both buttons\<close>

text \<open>
  Claim C10: if both buttons are active in the same run, the prompt sent to the inference
  client is the first template (the evaluation by a human resource manager) filled with
  the job description, not the percentage-match template.
\<close>

theorem describe_prompt_takes_precedence:
  assumes "submit1 inp" and "submit3 inp"
    and "lookup_model (model_options pg) (selected_model pg) = Some model_id"
  shows "select_prompt inp = py_format input_prompt1 (input_text inp) \<and>
         select_prompt inp \<noteq> py_format input_prompt3 (input_text inp) \<and>
         filter is_post (ask_ollama env inp pg image_base64 log) =
           filter is_post log @
           [HttpPost OLLAMA_API_URL
              (request_data
                 (''\<newline>'' @
      ''You are an experienced Technical Human Resource Manager. Please review the provided resume image against the job description below:\<newline>'' @
      ''\<newline>'' @
      ''Job Description:\<newline>'' @ input_text inp @ ''\<newline>'' @
      ''\<newline>'' @
      ''Your task is to evaluate whether the candidate's profile aligns with the role. \<newline>'' @
      ''Highlight the strengths and weaknesses of the applicant in relation to the specified job requirements.\<newline>'' @
      ''Provide a comprehensive, professional evaluation.\<newline>'')
                 image_base64 model_id) 60]"
proof -
  have a: "select_prompt inp = py_format input_prompt1 (input_text inp)"
    using assms(1) by (simp add: select_prompt_def)
  have b: "py_format input_prompt1 (input_text inp) \<noteq> py_format input_prompt3 (input_text inp)"
    by (simp add: py_format_prompt1 py_format_prompt3)
  have c: "select_prompt inp = Some (''\<newline>'' @
      ''You are an experienced Technical Human Resource Manager. Please review the provided resume image against the job description below:\<newline>'' @
      ''\<newline>'' @
      ''Job Description:\<newline>'' @ input_text inp @ ''\<newline>'' @
      ''\<newline>'' @
      ''Your task is to evaluate whether the candidate's profile aligns with the role. \<newline>'' @
      ''Highlight the strengths and weaknesses of the applicant in relation to the specified job requirements.\<newline>'' @
      ''Provide a comprehensive, professional evaluation.\<newline>'')"
    by (simp only: a py_format_prompt1)
  show ?thesis
    using a b ask_ollama_posts [OF c assms(3)] by simp
qed

theorem describe_prompt_takes_precedence_witness:
  "submit1 inp_both \<and> submit3 inp_both \<and>
   lookup_model (model_options (page_load env_ok inp_both))
     (selected_model (page_load env_ok inp_both)) = Some (JStr ''llava:7b'') \<and>
   select_prompt inp_both = py_format input_prompt1 (input_text inp_both) \<and>
   select_prompt inp_both \<noteq> py_format input_prompt3 (input_text inp_both)"
proof -
  have a: "submit1 inp_both" by code_simp
  have b: "submit3 inp_both" by code_simp
  have c: "lookup_model (model_options (page_load env_ok inp_both))
     (selected_model (page_load env_ok inp_both)) = Some (JStr ''llava:7b'')"
    by code_simp
  show ?thesis
    using describe_prompt_takes_precedence [OF a b c, of env_ok "''AWFu''" "[]"] a b c by blast
qed

end
